theory Spec2Isabelle
  imports Main "HOL-Library.AList"
begin

section \<open>JavaScript strings and values\<close>

text \<open>
  Strings are \<^typ>\<open>string\<close>. The characters of HOL are the code points 0 to 255, so the
  white space of \<^verbatim>\<open>String.prototype.trim\<close> (the WhiteSpace and LineTerminator
  productions of ECMAScript) is, in this range, TAB, LF, VT, FF, CR, SP and NBSP.
\<close>

definition isWhiteSpace :: "char \<Rightarrow> bool" where
  "isWhiteSpace c =
     (c \<in> set [CHR 0x09, CHR 0x0A, CHR 0x0B, CHR 0x0C, CHR 0x0D, CHR 0x20, CHR 0xA0])"

text \<open>\<^verbatim>\<open>s.trim()\<close>: white space removed from both ends.\<close>

definition trim :: "string \<Rightarrow> string" where
  "trim s = rev (dropWhile isWhiteSpace (rev (dropWhile isWhiteSpace s)))"

text \<open>\<^verbatim>\<open>s.includes(t)\<close>: \<open>t\<close> occurs in \<open>s\<close> at some position (case-sensitive).\<close>

fun includes_str :: "string \<Rightarrow> string \<Rightarrow> bool" where
  "includes_str [] t = (t = [])"
| "includes_str (c # s) t = (take (length t) (c # s) = t \<or> includes_str s t)"

text \<open>
  \<^verbatim>\<open>v || d\<close> for a value \<open>v\<close> that is a string or \<^verbatim>\<open>undefined\<close> (\<open>None\<close>): both
  \<^verbatim>\<open>undefined\<close> and the empty string are falsy.
\<close>

definition or_default :: "string option \<Rightarrow> string \<Rightarrow> string" where
  "or_default v d = (case v of None \<Rightarrow> d | Some s \<Rightarrow> if s = [] then d else s)"

text \<open>
  \<^verbatim>\<open>!v || v.trim() === ''\<close>, the test that the checks of required fields share, for a
  value \<open>v\<close> that is a string or \<^verbatim>\<open>undefined\<close>.
\<close>

definition missing :: "string option \<Rightarrow> bool" where
  "missing v = (case v of None \<Rightarrow> True | Some s \<Rightarrow> s = [] \<or> trim s = [])"

text \<open>
  A value that a \<^verbatim>\<open>throw\<close> raised and a \<^verbatim>\<open>catch\<close> receives: an instance of
  \<^verbatim>\<open>Error\<close> with its message, or any other value (here by a printed form).
\<close>

datatype js_thrown = JsError string | JsOther string

text \<open>\<^verbatim>\<open>error instanceof Error ? error.message : 'Unknown error'\<close>\<close>

fun errorMessage :: "js_thrown \<Rightarrow> string" where
  "errorMessage (JsError m) = m"
| "errorMessage (JsOther v) = ''Unknown error''"

section \<open>types.ts\<close>

record SetupConfig =
  composioApiKey :: string
  serverName :: string

record SetupResult =
  serverId :: string
  serverName :: string
  toolkits :: "string list"
  allowedTools :: "string list"

record ToolkitConfig =
  toolkit :: string
  authConfigId :: "string option"

record MCPServerConfig =
  name :: string
  toolkits :: "ToolkitConfig list"
  allowedTools :: "string list"

record GenerateUrlConfig =
  composioApiKey :: string
  serverId :: string
  userId :: string

text \<open>
  An object with string keys (\<^verbatim>\<open>Record<string, string>\<close>, an index signature) is an
  association list in the order of its keys.
\<close>

record GeneratedUrl =
  url :: string
  headers :: "(string \<times> string) list"

text \<open>The entry type of \<^verbatim>\<open>VSCodeMCPConfig.mcpServers\<close>; its \<^verbatim>\<open>type\<close> is the field \<open>type'\<close>.\<close>

record VSCodeServer =
  type' :: string
  url :: string
  headers :: "(string \<times> string) list"

record VSCodeMCPConfig =
  mcpServers :: "(string \<times> VSCodeServer) list"

text \<open>The entry type of \<^verbatim>\<open>ClaudeDesktopMCPConfig.mcpServers\<close>: every field is optional.\<close>

record ClaudeDesktopServer =
  command :: "string option"
  args :: "string list option"
  url :: "string option"
  type' :: "string option"
  headers :: "(string \<times> string) list option"

record ClaudeDesktopMCPConfig =
  mcpServers :: "(string \<times> ClaudeDesktopServer) list"

record IDEConfig =
  vscode :: VSCodeMCPConfig
  kiro :: VSCodeMCPConfig
  claudeDesktop :: ClaudeDesktopMCPConfig

text \<open>The field \<^verbatim>\<open>id\<close> is \<open>id'\<close> here.\<close>

record ComposioMCPServer =
  id' :: string
  name :: string
  toolkits :: "ToolkitConfig list"
  allowedTools :: "string list"
  createdAt :: string

record ComposioMCPInstance =
  url :: string
  allowedTools :: "string list"

section \<open>config.ts\<close>

definition BILLING_TOOLKITS :: "ToolkitConfig list" where
  "BILLING_TOOLKITS =
     [\<lparr>toolkit = ''gmail'', authConfigId = None\<rparr>,
      \<lparr>toolkit = ''googlesheets'', authConfigId = None\<rparr>,
      \<lparr>toolkit = ''googledrive'', authConfigId = None\<rparr>,
      \<lparr>toolkit = ''outlook'', authConfigId = None\<rparr>,
      \<lparr>toolkit = ''xero'', authConfigId = None\<rparr>]"

definition BILLING_ALLOWED_TOOLS :: "string list" where
  "BILLING_ALLOWED_TOOLS =
     [''GMAIL_FETCH_EMAILS'',
      ''GMAIL_GET_ATTACHMENT'',
      ''GMAIL_SEND_EMAIL'',
      ''GOOGLESHEETS_BATCH_UPDATE'',
      ''GOOGLESHEETS_CREATE_GOOGLE_SHEET1'',
      ''GOOGLEDRIVE_DOWNLOAD_FILE'',
      ''GOOGLEDRIVE_UPLOAD_FILE'',
      ''OUTLOOK_SEARCH_MESSAGES'',
      ''OUTLOOK_GET_ATTACHMENT'',
      ''XERO_LIST_INVOICES'',
      ''XERO_CREATE_INVOICE'']"

definition BILLING_MCP_CONFIG :: MCPServerConfig where
  "BILLING_MCP_CONFIG =
     \<lparr>MCPServerConfig.name = ''billing-invoice-automation'',
      MCPServerConfig.toolkits = BILLING_TOOLKITS,
      MCPServerConfig.allowedTools = BILLING_ALLOWED_TOOLS\<rparr>"

section \<open>The platform client\<close>

text \<open>
  The package \<^verbatim>\<open>@composio/core\<close> is not part of the repository, so the client is a
  parameter: the constructor \<^verbatim>\<open>new Composio({apiKey, disableVersionCheck})\<close> either
  throws or returns a client, whose methods \<^verbatim>\<open>mcp.create(name, {toolkits, allowedTools,
  manuallyManageConnections})\<close> and \<^verbatim>\<open>mcp.generate(userId, serverId,
  {manuallyManageConnections})\<close> each either throw or return the platform's answer. An
  operation calls each of them at most once, so a function of the arguments is enough.
\<close>

record Composio =
  mcp_create :: "string \<Rightarrow> string list \<Rightarrow> string list \<Rightarrow> bool \<Rightarrow> js_thrown + ComposioMCPServer"
  mcp_generate :: "string \<Rightarrow> string \<Rightarrow> bool \<Rightarrow> js_thrown + ComposioMCPInstance"

type_synonym new_Composio = "string \<Rightarrow> bool \<Rightarrow> js_thrown + Composio"

text \<open>Every call an operation makes to the client is recorded, in order, with its arguments.\<close>

datatype platform_call =
    NewComposio string bool
  | McpCreate string "string list" "string list" bool
  | McpGenerate string string bool

text \<open>
  What an operation throws: one of the three error classes of the repository, with the
  message and the optional \<^verbatim>\<open>cause\<close>, or a value of the client that no \<^verbatim>\<open>catch\<close>
  of the operation receives.
\<close>

datatype failure =
    ComposioApiKeyError string
  | MCPServerError string "js_thrown option"
  | UrlGenerationError string "js_thrown option"
  | Uncaught js_thrown

type_synonym 'a outcome = "platform_call list \<times> (failure + 'a)"

section \<open>setup.ts\<close>

text \<open>\<^verbatim>\<open>getApiKey\<close>; the argument is \<^verbatim>\<open>process.env.COMPOSIO_API_KEY\<close>.\<close>

definition getApiKey :: "string option \<Rightarrow> failure + string" where
  "getApiKey env =
     (case env of
        None \<Rightarrow> Inl (ComposioApiKeyError ''COMPOSIO_API_KEY environment variable is required.'')
      | Some apiKey \<Rightarrow>
          if missing (Some apiKey)
          then Inl (ComposioApiKeyError ''COMPOSIO_API_KEY environment variable is required.'')
          else Inr apiKey)"

text \<open>
  The \<^verbatim>\<open>catch\<close> block of \<^verbatim>\<open>setup\<close>: what it throws for the value it caught, given
  the name that was requested of the platform.
\<close>

definition setup_catch :: "string \<Rightarrow> js_thrown \<Rightarrow> failure" where
  "setup_catch server_name error =
     (let errorMessage = errorMessage error in
      if includes_str errorMessage ''already exists''
      then MCPServerError
             (''MCP server with name '' @ [CHR 0x27] @ server_name @ [CHR 0x27]
                @ '' already exists with different configuration. ''
                @ ''Please use a different server name or delete the existing server.'')
             (Some error)
      else if includes_str errorMessage ''Invalid'' \<or> includes_str errorMessage ''unauthorized''
                \<or> includes_str errorMessage ''401''
      then ComposioApiKeyError ''Invalid Composio API key''
      else MCPServerError (''Failed to create MCP server: '' @ errorMessage) (Some error))"

text \<open>\<^verbatim>\<open>setup(config)\<close>, under the name \<open>setup'\<close>.\<close>

definition setup' :: "new_Composio \<Rightarrow> SetupConfig \<Rightarrow> SetupResult outcome" where
  "setup' new_Composio config =
     (case new_Composio (SetupConfig.composioApiKey config) True of
        Inl thrown \<Rightarrow> ([NewComposio (SetupConfig.composioApiKey config) True], Inl (Uncaught thrown))
      | Inr composio \<Rightarrow>
          (let serverName =
                 or_default (Some (SetupConfig.serverName config))
                   (MCPServerConfig.name BILLING_MCP_CONFIG);
               toolkits = map toolkit BILLING_TOOLKITS;
               allowedTools = BILLING_ALLOWED_TOOLS;
               calls = [NewComposio (SetupConfig.composioApiKey config) True,
                        McpCreate serverName toolkits allowedTools False]
           in case mcp_create composio serverName toolkits allowedTools False of
                Inr mcpConfig \<Rightarrow>
                  (calls,
                   Inr \<lparr>SetupResult.serverId = id' mcpConfig,
                        SetupResult.serverName = ComposioMCPServer.name mcpConfig,
                        SetupResult.toolkits = toolkits,
                        SetupResult.allowedTools = allowedTools\<rparr>)
              | Inl error \<Rightarrow> (calls, Inl (setup_catch serverName error))))"

text \<open>
  \<^verbatim>\<open>setupFromEnv(serverName?)\<close>; the second argument is
  \<^verbatim>\<open>process.env.COMPOSIO_API_KEY\<close>.
\<close>

definition setupFromEnv :: "new_Composio \<Rightarrow> string option \<Rightarrow> string option \<Rightarrow> SetupResult outcome" where
  "setupFromEnv new_Composio env serverName_opt =
     (case getApiKey env of
        Inl e \<Rightarrow> ([], Inl e)
      | Inr apiKey \<Rightarrow>
          setup' new_Composio
            \<lparr>SetupConfig.composioApiKey = apiKey,
             SetupConfig.serverName =
               or_default serverName_opt (MCPServerConfig.name BILLING_MCP_CONFIG)\<rparr>)"

section \<open>generate-url.ts\<close>

definition generateUserUrl :: "new_Composio \<Rightarrow> GenerateUrlConfig \<Rightarrow> GeneratedUrl outcome" where
  "generateUserUrl new_Composio config =
     (let composioApiKey = GenerateUrlConfig.composioApiKey config;
          serverId = GenerateUrlConfig.serverId config;
          userId = userId config
      in if missing (Some composioApiKey)
         then ([], Inl (UrlGenerationError ''Composio API key is required'' None))
         else if missing (Some serverId)
         then ([], Inl (UrlGenerationError ''Server ID is required'' None))
         else if missing (Some userId)
         then ([], Inl (UrlGenerationError ''User ID is required'' None))
         else
           (case new_Composio composioApiKey True of
              Inl thrown \<Rightarrow> ([NewComposio composioApiKey True], Inl (Uncaught thrown))
            | Inr composio \<Rightarrow>
                (let calls = [NewComposio composioApiKey True, McpGenerate userId serverId False]
                 in case mcp_generate composio userId serverId False of
                      Inr serverInstance \<Rightarrow>
                        (calls,
                         Inr \<lparr>GeneratedUrl.url = ComposioMCPInstance.url serverInstance,
                              GeneratedUrl.headers = [(''x-api-key'', composioApiKey)]\<rparr>)
                    | Inl error \<Rightarrow>
                        (calls,
                         Inl (UrlGenerationError
                                (''Failed to generate MCP URL: '' @ errorMessage error)
                                (Some error))))))"

text \<open>
  The entry that \<^verbatim>\<open>generateIDEConfigs\<close> writes three times:
  \<^verbatim>\<open>{...headers, 'x-api-key': headers['x-api-key'] || 'YOUR_COMPOSIO_API_KEY'}\<close>. The spread
  copies the keys in order and the assignment keeps the place of a key that is there and
  appends one that is not, which is \<^const>\<open>AList.update\<close>.
\<close>

definition spread_headers :: "(string \<times> string) list \<Rightarrow> (string \<times> string) list" where
  "spread_headers hs =
     AList.update ''x-api-key''
       (or_default (map_of hs ''x-api-key'') ''YOUR_COMPOSIO_API_KEY'') hs"

text \<open>
  \<^verbatim>\<open>generateIDEConfigs(generatedUrl, serverLabel = 'billing-agent')\<close>: the default stands in
  for an argument that is left out (\<open>None\<close>).
\<close>

definition generateIDEConfigs :: "GeneratedUrl \<Rightarrow> string option \<Rightarrow> IDEConfig" where
  "generateIDEConfigs generatedUrl serverLabel_opt =
     (let serverLabel = (case serverLabel_opt of None \<Rightarrow> ''billing-agent'' | Some l \<Rightarrow> l);
          url = GeneratedUrl.url generatedUrl;
          headers = GeneratedUrl.headers generatedUrl;
          vscodeConfig =
            \<lparr>VSCodeMCPConfig.mcpServers =
               [(serverLabel,
                 \<lparr>VSCodeServer.type' = ''http'',
                  VSCodeServer.url = url,
                  VSCodeServer.headers = spread_headers headers\<rparr>)]\<rparr>;
          kiroConfig =
            \<lparr>VSCodeMCPConfig.mcpServers =
               [(serverLabel,
                 \<lparr>VSCodeServer.type' = ''http'',
                  VSCodeServer.url = url,
                  VSCodeServer.headers = spread_headers headers\<rparr>)]\<rparr>;
          claudeDesktopConfig =
            \<lparr>ClaudeDesktopMCPConfig.mcpServers =
               [(serverLabel,
                 \<lparr>command = None,
                  args = None,
                  ClaudeDesktopServer.url = Some url,
                  ClaudeDesktopServer.type' = Some ''http'',
                  ClaudeDesktopServer.headers = Some (spread_headers headers)\<rparr>)]\<rparr>
      in \<lparr>vscode = vscodeConfig, kiro = kiroConfig, claudeDesktop = claudeDesktopConfig\<rparr>)"

definition generateVSCodeConfig :: "GeneratedUrl \<Rightarrow> string option \<Rightarrow> VSCodeMCPConfig" where
  "generateVSCodeConfig generatedUrl serverLabel = vscode (generateIDEConfigs generatedUrl serverLabel)"

definition generateKiroConfig :: "GeneratedUrl \<Rightarrow> string option \<Rightarrow> VSCodeMCPConfig" where
  "generateKiroConfig generatedUrl serverLabel = kiro (generateIDEConfigs generatedUrl serverLabel)"

definition generateClaudeDesktopConfig :: "GeneratedUrl \<Rightarrow> string option \<Rightarrow> ClaudeDesktopMCPConfig" where
  "generateClaudeDesktopConfig generatedUrl serverLabel =
     claudeDesktop (generateIDEConfigs generatedUrl serverLabel)"

definition getIDEConfigPath :: "string \<Rightarrow> string" where
  "getIDEConfigPath ide =
     (if ide = ''vscode'' then ''.vscode/mcp.json''
      else if ide = ''kiro'' then ''.kiro/settings/mcp.json''
      else if ide = ''claudeDesktop''
      then ''~/Library/Application Support/Claude/claude_desktop_config.json''
      else ''mcp.json'')"

section \<open>Example clients and the notions of the statements\<close>

text \<open>
  Two clients for concrete runs: one whose calls succeed (the platform answers with the
  requested name, the identifier \<open>srv-1\<close> and lists of its own), and one whose calls all
  throw the given value.
\<close>

definition example_server :: ComposioMCPServer where
  "example_server =
     \<lparr>id' = ''srv-1'',
      ComposioMCPServer.name = ''billing-invoice-automation'',
      ComposioMCPServer.toolkits = [\<lparr>toolkit = ''slack'', authConfigId = Some ''ac_1''\<rparr>],
      ComposioMCPServer.allowedTools = [''SLACK_SEND_MESSAGE''],
      createdAt = ''2025-01-01T00:00:00Z''\<rparr>"

definition client_ok :: Composio where
  "client_ok =
     \<lparr>mcp_create = (\<lambda>n ts als m. Inr (example_server\<lparr>ComposioMCPServer.name := n\<rparr>)),
      mcp_generate = (\<lambda>u s m.
        Inr \<lparr>ComposioMCPInstance.url = ''https://host/v3/mcp/'' @ s @ ''?user_id='' @ u,
             ComposioMCPInstance.allowedTools = []\<rparr>)\<rparr>"

definition platform_ok :: new_Composio where
  "platform_ok apiKey disableVersionCheck = Inr client_ok"

definition client_failing :: "js_thrown \<Rightarrow> Composio" where
  "client_failing thrown =
     \<lparr>mcp_create = (\<lambda>n ts als m. Inl thrown), mcp_generate = (\<lambda>u s m. Inl thrown)\<rparr>"

definition platform_failing :: "js_thrown \<Rightarrow> new_Composio" where
  "platform_failing thrown apiKey disableVersionCheck = Inr (client_failing thrown)"

definition example_endpoint :: GeneratedUrl where
  "example_endpoint =
     \<lparr>GeneratedUrl.url = ''https://host/v3/mcp/srv-1?user_id=u@example.com'',
      GeneratedUrl.headers = [(''x-api-key'', ''k1'')]\<rparr>"

text \<open>
  The property paths \<^verbatim>\<open>doc.mcpServers[label].headers[key]\<close> of the two document types;
  \<open>None\<close> where a step of the path is absent.
\<close>

definition vscode_header :: "VSCodeMCPConfig \<Rightarrow> string \<Rightarrow> string \<Rightarrow> string option" where
  "vscode_header doc label key =
     (case map_of (VSCodeMCPConfig.mcpServers doc) label of
        None \<Rightarrow> None
      | Some s \<Rightarrow> map_of (VSCodeServer.headers s) key)"

definition claudeDesktop_header :: "ClaudeDesktopMCPConfig \<Rightarrow> string \<Rightarrow> string \<Rightarrow> string option" where
  "claudeDesktop_header doc label key =
     (case map_of (ClaudeDesktopMCPConfig.mcpServers doc) label of
        None \<Rightarrow> None
      | Some s \<Rightarrow> (case ClaudeDesktopServer.headers s of None \<Rightarrow> None | Some hs \<Rightarrow> map_of hs key))"

text \<open>
  A \<^verbatim>\<open>VSCodeMCPConfig\<close> read at the type \<^verbatim>\<open>ClaudeDesktopMCPConfig\<close>, whose entries allow
  the fields of the former and, in addition, \<^verbatim>\<open>command\<close> and \<^verbatim>\<open>args\<close>: the same
  value, with the two additional fields absent.
\<close>

definition asClaudeDesktopServer :: "VSCodeServer \<Rightarrow> ClaudeDesktopServer" where
  "asClaudeDesktopServer s =
     \<lparr>command = None, args = None,
      ClaudeDesktopServer.url = Some (VSCodeServer.url s),
      ClaudeDesktopServer.type' = Some (VSCodeServer.type' s),
      ClaudeDesktopServer.headers = Some (VSCodeServer.headers s)\<rparr>"

definition asClaudeDesktopMCPConfig :: "VSCodeMCPConfig \<Rightarrow> ClaudeDesktopMCPConfig" where
  "asClaudeDesktopMCPConfig c =
     \<lparr>ClaudeDesktopMCPConfig.mcpServers =
        map (\<lambda>(label, s). (label, asClaudeDesktopServer s)) (VSCodeMCPConfig.mcpServers c)\<rparr>"

text \<open>
  A tool name is qualified under a toolkit when it starts with the toolkit's identifier
  in upper case and an underscore, as \<open>GMAIL_SEND_EMAIL\<close> does under \<open>gmail\<close>.
\<close>

definition toUpperCase :: "string \<Rightarrow> string" where
  "toUpperCase s =
     map (\<lambda>c. case map_of (zip ''abcdefghijklmnopqrstuvwxyz'' ''ABCDEFGHIJKLMNOPQRSTUVWXYZ'') c of
                None \<Rightarrow> c | Some C \<Rightarrow> C) s"

definition tool_of_toolkit :: "string \<Rightarrow> string \<Rightarrow> bool" where
  "tool_of_toolkit tk tool = (take (length tk + 1) tool = toUpperCase tk @ ''_'')"

section \<open>Strings: what the tests of the code mean\<close>

lemma dropWhile_all_iff: "(\<forall>c\<in>set (dropWhile P s). P c) \<longleftrightarrow> (\<forall>c\<in>set s. P c)"
proof
  assume a: "\<forall>c\<in>set (dropWhile P s). P c"
  have "dropWhile P s = []"
  proof (rule ccontr)
    assume n: "dropWhile P s \<noteq> []"
    then have "\<not> P (hd (dropWhile P s))" by (rule hd_dropWhile)
    moreover have "hd (dropWhile P s) \<in> set (dropWhile P s)" using n by simp
    ultimately show False using a by blast
  qed
  then show "\<forall>c\<in>set s. P c" by (simp add: dropWhile_eq_Nil_conv)
next
  assume "\<forall>c\<in>set s. P c"
  then show "\<forall>c\<in>set (dropWhile P s). P c" by (meson set_dropWhileD)
qed

text \<open>Trimming leaves nothing exactly when every character is white space.\<close>

lemma trim_Nil_iff: "trim s = [] \<longleftrightarrow> list_all isWhiteSpace s"
proof -
  have "trim s = [] \<longleftrightarrow> (\<forall>c\<in>set (rev (dropWhile isWhiteSpace s)). isWhiteSpace c)"
    by (simp add: trim_def dropWhile_eq_Nil_conv)
  also have "\<dots> \<longleftrightarrow> (\<forall>c\<in>set s. isWhiteSpace c)"
    by (simp add: dropWhile_all_iff)
  finally show ?thesis by (simp add: list_all_iff)
qed

lemma missing_Some_iff: "missing (Some s) \<longleftrightarrow> list_all isWhiteSpace s"
  by (auto simp: missing_def trim_Nil_iff)

text \<open>\<^const>\<open>includes_str\<close> is the substring relation.\<close>

lemma includes_str_iff: "includes_str s t \<longleftrightarrow> (\<exists>p q. s = p @ t @ q)"
proof (induction s)
  case Nil
  then show ?case by auto
next
  case (Cons c s)
  have "take (length t) (c # s) = t \<longleftrightarrow> (\<exists>q. c # s = t @ q)"
    by (metis append_eq_conv_conj append_take_drop_id)
  moreover have "(\<exists>p q. c # s = p @ t @ q) \<longleftrightarrow> (\<exists>q. c # s = t @ q) \<or> (\<exists>p q. s = p @ t @ q)"
  proof
    assume "\<exists>p q. c # s = p @ t @ q"
    then obtain p q where pq: "c # s = p @ t @ q" by blast
    show "(\<exists>q. c # s = t @ q) \<or> (\<exists>p q. s = p @ t @ q)"
    proof (cases p)
      case Nil
      then show ?thesis using pq by auto
    next
      case (Cons a p')
      then have "s = p' @ t @ q" using pq by simp
      then show ?thesis by blast
    qed
  next
    assume "(\<exists>q. c # s = t @ q) \<or> (\<exists>p q. s = p @ t @ q)"
    then show "\<exists>p q. c # s = p @ t @ q"
    proof
      assume "\<exists>q. c # s = t @ q"
      then obtain q where "c # s = [] @ t @ q" by auto
      then show ?thesis by blast
    next
      assume "\<exists>p q. s = p @ t @ q"
      then obtain p q where "c # s = (c # p) @ t @ q" by auto
      then show ?thesis by blast
    qed
  qed
  ultimately show ?case using Cons.IH by simp
qed

section \<open>The paths through setup and generateUserUrl\<close>

text \<open>A run of \<^const>\<open>setup'\<close> that returns a result went through a successful create call.\<close>

lemma setup'_created:
  assumes "setup' P config = (calls, Inr r)"
  obtains composio mcpConfig where
    "P (SetupConfig.composioApiKey config) True = Inr composio"
    "mcp_create composio
       (or_default (Some (SetupConfig.serverName config)) (MCPServerConfig.name BILLING_MCP_CONFIG))
       (map toolkit BILLING_TOOLKITS) BILLING_ALLOWED_TOOLS False = Inr mcpConfig"
    "r = \<lparr>SetupResult.serverId = id' mcpConfig,
          SetupResult.serverName = ComposioMCPServer.name mcpConfig,
          SetupResult.toolkits = map toolkit BILLING_TOOLKITS,
          SetupResult.allowedTools = BILLING_ALLOWED_TOOLS\<rparr>"
  using assms by (auto simp: setup'_def Let_def split: sum.splits)

text \<open>A create call that throws hands the thrown value to the \<^verbatim>\<open>catch\<close> block.\<close>

lemma setup'_create_throws:
  assumes "P (SetupConfig.composioApiKey config) True = Inr composio"
    and "mcp_create composio
           (if SetupConfig.serverName config = [] then ''billing-invoice-automation''
            else SetupConfig.serverName config)
           (map toolkit BILLING_TOOLKITS) BILLING_ALLOWED_TOOLS False = Inl error"
  shows "snd (setup' P config) =
           Inl (setup_catch
                  (if SetupConfig.serverName config = [] then ''billing-invoice-automation''
                   else SetupConfig.serverName config) error)"
  using assms by (simp add: setup'_def Let_def or_default_def BILLING_MCP_CONFIG_def)

lemma setup'_platform_ok:
  "setup' platform_ok
     \<lparr>SetupConfig.composioApiKey = ''k1'', SetupConfig.serverName = ''billing-invoice-automation''\<rparr>
   = ([NewComposio ''k1'' True,
       McpCreate ''billing-invoice-automation'' (map toolkit BILLING_TOOLKITS)
         BILLING_ALLOWED_TOOLS False],
      Inr \<lparr>SetupResult.serverId = ''srv-1'',
           SetupResult.serverName = ''billing-invoice-automation'',
           SetupResult.toolkits = map toolkit BILLING_TOOLKITS,
           SetupResult.allowedTools = BILLING_ALLOWED_TOOLS\<rparr>)"
  by (simp add: setup'_def platform_ok_def client_ok_def example_server_def or_default_def
      Let_def BILLING_MCP_CONFIG_def)

lemma generateUserUrl_generate_throws:
  assumes "\<not> list_all isWhiteSpace k" "\<not> list_all isWhiteSpace s" "\<not> list_all isWhiteSpace u"
    and "P k True = Inr composio"
    and "mcp_generate composio u s False = Inl error"
  shows "generateUserUrl P
           \<lparr>GenerateUrlConfig.composioApiKey = k, GenerateUrlConfig.serverId = s, userId = u\<rparr>
         = ([NewComposio k True, McpGenerate u s False],
            Inl (UrlGenerationError (''Failed to generate MCP URL: '' @ errorMessage error)
                   (Some error)))"
  using assms by (simp add: generateUserUrl_def Let_def missing_Some_iff)

section \<open>The rendered documents\<close>

lemma spread_headers_lookup:
  "map_of (spread_headers hs) ''x-api-key''
     = Some (or_default (map_of hs ''x-api-key'') ''YOUR_COMPOSIO_API_KEY'')"
  by (simp add: spread_headers_def update_conv')

lemma spread_headers_other:
  "key \<noteq> ''x-api-key'' \<Longrightarrow> map_of (spread_headers hs) key = map_of hs key"
  by (simp add: spread_headers_def update_conv')

lemma generateIDEConfigs_eq:
  "generateIDEConfigs e l =
     \<lparr>vscode =
        \<lparr>VSCodeMCPConfig.mcpServers =
           [(case l of None \<Rightarrow> ''billing-agent'' | Some x \<Rightarrow> x,
             \<lparr>VSCodeServer.type' = ''http'', VSCodeServer.url = GeneratedUrl.url e,
              VSCodeServer.headers = spread_headers (GeneratedUrl.headers e)\<rparr>)]\<rparr>,
      kiro =
        \<lparr>VSCodeMCPConfig.mcpServers =
           [(case l of None \<Rightarrow> ''billing-agent'' | Some x \<Rightarrow> x,
             \<lparr>VSCodeServer.type' = ''http'', VSCodeServer.url = GeneratedUrl.url e,
              VSCodeServer.headers = spread_headers (GeneratedUrl.headers e)\<rparr>)]\<rparr>,
      claudeDesktop =
        \<lparr>ClaudeDesktopMCPConfig.mcpServers =
           [(case l of None \<Rightarrow> ''billing-agent'' | Some x \<Rightarrow> x,
             \<lparr>command = None, args = None,
              ClaudeDesktopServer.url = Some (GeneratedUrl.url e),
              ClaudeDesktopServer.type' = Some ''http'',
              ClaudeDesktopServer.headers = Some (spread_headers (GeneratedUrl.headers e))\<rparr>)]\<rparr>\<rparr>"
  by (simp add: generateIDEConfigs_def Let_def)

lemma rendered_api_key:
  "vscode_header (vscode (generateIDEConfigs e (Some l))) l ''x-api-key''
     = Some (or_default (map_of (GeneratedUrl.headers e) ''x-api-key'') ''YOUR_COMPOSIO_API_KEY'')"
  "vscode_header (kiro (generateIDEConfigs e (Some l))) l ''x-api-key''
     = Some (or_default (map_of (GeneratedUrl.headers e) ''x-api-key'') ''YOUR_COMPOSIO_API_KEY'')"
  "claudeDesktop_header (claudeDesktop (generateIDEConfigs e (Some l))) l ''x-api-key''
     = Some (or_default (map_of (GeneratedUrl.headers e) ''x-api-key'') ''YOUR_COMPOSIO_API_KEY'')"
  by (simp_all add: generateIDEConfigs_eq vscode_header_def claudeDesktop_header_def
      spread_headers_lookup)

lemma rendered_example:
  "generateIDEConfigs example_endpoint (Some l) =
     \<lparr>vscode =
        \<lparr>VSCodeMCPConfig.mcpServers =
           [(l, \<lparr>VSCodeServer.type' = ''http'',
                 VSCodeServer.url = ''https://host/v3/mcp/srv-1?user_id=u@example.com'',
                 VSCodeServer.headers = [(''x-api-key'', ''k1'')]\<rparr>)]\<rparr>,
      kiro =
        \<lparr>VSCodeMCPConfig.mcpServers =
           [(l, \<lparr>VSCodeServer.type' = ''http'',
                 VSCodeServer.url = ''https://host/v3/mcp/srv-1?user_id=u@example.com'',
                 VSCodeServer.headers = [(''x-api-key'', ''k1'')]\<rparr>)]\<rparr>,
      claudeDesktop =
        \<lparr>ClaudeDesktopMCPConfig.mcpServers =
           [(l, \<lparr>command = None, args = None,
                 ClaudeDesktopServer.url = Some ''https://host/v3/mcp/srv-1?user_id=u@example.com'',
                 ClaudeDesktopServer.type' = Some ''http'',
                 ClaudeDesktopServer.headers = Some [(''x-api-key'', ''k1'')]\<rparr>)]\<rparr>\<rparr>"
  by (simp add: generateIDEConfigs_eq example_endpoint_def spread_headers_def or_default_def)

lemma tools_qualified:
  "list_all (\<lambda>tool. list_ex (\<lambda>tk. tool_of_toolkit tk tool) (map toolkit BILLING_TOOLKITS))
     BILLING_ALLOWED_TOOLS"
  by (simp add: BILLING_TOOLKITS_def BILLING_ALLOWED_TOOLS_def tool_of_toolkit_def toUpperCase_def)

section \<open>Authorization failures of the platform\<close>

text \<open>
  Claim C1, as stated, fails. A failure of \<^verbatim>\<open>mcp.generate\<close> whose message contains
  \<open>401\<close> leaves \<^verbatim>\<open>generateUserUrl\<close> as a \<^verbatim>\<open>UrlGenerationError\<close>, its catch block
  has one case only; and a failure of \<^verbatim>\<open>mcp.create\<close> whose message contains both
  \<open>401\<close> and \<open>already exists\<close> leaves \<^verbatim>\<open>setup\<close> as the \<^verbatim>\<open>MCPServerError\<close> of a name
  conflict, the case that is tested first.
\<close>

theorem authorization_failure_401_counterexample:
  "includes_str (errorMessage (JsError ''401 Unauthorized'')) ''401''
   \<and> snd (generateUserUrl (platform_failing (JsError ''401 Unauthorized''))
            \<lparr>GenerateUrlConfig.composioApiKey = ''k1'', GenerateUrlConfig.serverId = ''srv-1'',
             userId = ''u@example.com''\<rparr>)
     = Inl (UrlGenerationError ''Failed to generate MCP URL: 401 Unauthorized''
              (Some (JsError ''401 Unauthorized'')))
   \<and> includes_str (errorMessage (JsError ''401: server already exists'')) ''401''
   \<and> snd (setup' (platform_failing (JsError ''401: server already exists''))
            \<lparr>SetupConfig.composioApiKey = ''k1'', SetupConfig.serverName = ''billing''\<rparr>)
     = Inl (MCPServerError
              (''MCP server with name '' @ [CHR 0x27] @ ''billing'' @ [CHR 0x27]
                 @ '' already exists with different configuration. ''
                 @ ''Please use a different server name or delete the existing server.'')
              (Some (JsError ''401: server already exists'')))"
  by (simp add: generateUserUrl_def setup'_def setup_catch_def platform_failing_def
      client_failing_def Let_def missing_def trim_def isWhiteSpace_def or_default_def)

text \<open>
  Claim C1, amended. When \<^verbatim>\<open>mcp.create\<close> throws an error whose message contains \<open>401\<close>
  and does not contain \<open>already exists\<close>, \<^verbatim>\<open>setup\<close> throws
  \<^verbatim>\<open>ComposioApiKeyError('Invalid Composio API key')\<close>. When \<^verbatim>\<open>mcp.generate\<close> throws an
  error whose message contains \<open>401\<close>, \<^verbatim>\<open>generateUserUrl\<close> throws a
  \<^verbatim>\<open>UrlGenerationError\<close> whose message is \<open>Failed to generate MCP URL: \<close> followed by the
  message of the error, and whose cause is the error.
\<close>

theorem authorization_failure_401:
  "(P (SetupConfig.composioApiKey config) True = Inr composio
      \<and> mcp_create composio
           (if SetupConfig.serverName config = [] then ''billing-invoice-automation''
            else SetupConfig.serverName config)
           (map toolkit BILLING_TOOLKITS) BILLING_ALLOWED_TOOLS False = Inl error
      \<and> (\<exists>p q. errorMessage error = p @ ''401'' @ q)
      \<and> \<not> (\<exists>p q. errorMessage error = p @ ''already exists'' @ q)
    \<longrightarrow> snd (setup' P config) = Inl (ComposioApiKeyError ''Invalid Composio API key''))
   \<and> (\<not> list_all isWhiteSpace k \<and> \<not> list_all isWhiteSpace s \<and> \<not> list_all isWhiteSpace u
      \<and> P k True = Inr composio'
      \<and> mcp_generate composio' u s False = Inl error'
      \<and> (\<exists>p q. errorMessage error' = p @ ''401'' @ q)
    \<longrightarrow> snd (generateUserUrl P
              \<lparr>GenerateUrlConfig.composioApiKey = k, GenerateUrlConfig.serverId = s, userId = u\<rparr>)
        = Inl (UrlGenerationError (''Failed to generate MCP URL: '' @ errorMessage error')
                 (Some error')))"
proof (intro conjI impI)
  assume a: "P (SetupConfig.composioApiKey config) True = Inr composio
      \<and> mcp_create composio
           (if SetupConfig.serverName config = [] then ''billing-invoice-automation''
            else SetupConfig.serverName config)
           (map toolkit BILLING_TOOLKITS) BILLING_ALLOWED_TOOLS False = Inl error
      \<and> (\<exists>p q. errorMessage error = p @ ''401'' @ q)
      \<and> \<not> (\<exists>p q. errorMessage error = p @ ''already exists'' @ q)"
  then have "includes_str (errorMessage error) ''401''"
    and "\<not> includes_str (errorMessage error) ''already exists''"
    by (simp_all only: includes_str_iff simp_thms)
  then have "setup_catch
               (if SetupConfig.serverName config = [] then ''billing-invoice-automation''
                else SetupConfig.serverName config) error
             = ComposioApiKeyError ''Invalid Composio API key''"
    by (simp add: setup_catch_def Let_def)
  then show "snd (setup' P config) = Inl (ComposioApiKeyError ''Invalid Composio API key'')"
    using setup'_create_throws [of P config composio error] a by simp
next
  assume "\<not> list_all isWhiteSpace k \<and> \<not> list_all isWhiteSpace s \<and> \<not> list_all isWhiteSpace u
      \<and> P k True = Inr composio'
      \<and> mcp_generate composio' u s False = Inl error'
      \<and> (\<exists>p q. errorMessage error' = p @ ''401'' @ q)"
  then show "snd (generateUserUrl P
              \<lparr>GenerateUrlConfig.composioApiKey = k, GenerateUrlConfig.serverId = s, userId = u\<rparr>)
        = Inl (UrlGenerationError (''Failed to generate MCP URL: '' @ errorMessage error')
                 (Some error'))"
    using generateUserUrl_generate_throws [of k s u P composio' error'] by simp
qed

theorem authorization_failure_401_witness:
  "includes_str (errorMessage (JsError ''HTTP 401'')) ''401''
   \<and> \<not> includes_str (errorMessage (JsError ''HTTP 401'')) ''already exists''
   \<and> snd (setup' (platform_failing (JsError ''HTTP 401''))
            \<lparr>SetupConfig.composioApiKey = ''k1'', SetupConfig.serverName = ''billing''\<rparr>)
     = Inl (ComposioApiKeyError ''Invalid Composio API key'')
   \<and> snd (generateUserUrl (platform_failing (JsError ''HTTP 401''))
            \<lparr>GenerateUrlConfig.composioApiKey = ''k1'', GenerateUrlConfig.serverId = ''srv-1'',
             userId = ''u@example.com''\<rparr>)
     = Inl (UrlGenerationError ''Failed to generate MCP URL: HTTP 401'' (Some (JsError ''HTTP 401'')))"
  using authorization_failure_401
    [where P = "platform_failing (JsError ''HTTP 401'')"
       and config = "\<lparr>SetupConfig.composioApiKey = ''k1'', SetupConfig.serverName = ''billing''\<rparr>"
       and composio = "client_failing (JsError ''HTTP 401'')"
       and error = "JsError ''HTTP 401''"
       and k = "''k1''" and s = "''srv-1''" and u = "''u@example.com''"
       and composio' = "client_failing (JsError ''HTTP 401'')"
       and error' = "JsError ''HTTP 401''"]
    includes_str_iff [of "''HTTP 401''" "''401''"]
    includes_str_iff [of "''HTTP 401''" "''already exists''"]
  by (simp add: platform_failing_def client_failing_def isWhiteSpace_def)

section \<open>Validation of the provision request\<close>

text \<open>
  Claim C2, as stated, fails. \<^verbatim>\<open>setup\<close> checks neither field of its argument: with a
  client whose calls succeed, a key of white space and an empty server name each reach
  \<^verbatim>\<open>mcp.create\<close> and return a result, the empty name replaced by the default name.
\<close>

theorem provision_validation_counterexample:
  "list_all isWhiteSpace '' ''
   \<and> setup' platform_ok \<lparr>SetupConfig.composioApiKey = '' '', SetupConfig.serverName = ''billing''\<rparr>
     = ([NewComposio '' '' True,
         McpCreate ''billing'' (map toolkit BILLING_TOOLKITS) BILLING_ALLOWED_TOOLS False],
        Inr \<lparr>SetupResult.serverId = ''srv-1'', SetupResult.serverName = ''billing'',
             SetupResult.toolkits = map toolkit BILLING_TOOLKITS,
             SetupResult.allowedTools = BILLING_ALLOWED_TOOLS\<rparr>)
   \<and> list_all isWhiteSpace []
   \<and> setup' platform_ok \<lparr>SetupConfig.composioApiKey = ''k1'', SetupConfig.serverName = []\<rparr>
     = ([NewComposio ''k1'' True,
         McpCreate ''billing-invoice-automation'' (map toolkit BILLING_TOOLKITS)
           BILLING_ALLOWED_TOOLS False],
        Inr \<lparr>SetupResult.serverId = ''srv-1'',
             SetupResult.serverName = ''billing-invoice-automation'',
             SetupResult.toolkits = map toolkit BILLING_TOOLKITS,
             SetupResult.allowedTools = BILLING_ALLOWED_TOOLS\<rparr>)"
  by (simp add: setup'_def platform_ok_def client_ok_def example_server_def or_default_def
      Let_def BILLING_MCP_CONFIG_def isWhiteSpace_def)

text \<open>
  Claim C2, amended. The credential is checked where it is read from the environment:
  when \<^verbatim>\<open>COMPOSIO_API_KEY\<close> is unset, empty or white space only, \<^verbatim>\<open>setupFromEnv\<close> throws
  \<^verbatim>\<open>ComposioApiKeyError('COMPOSIO_API_KEY environment variable is required.')\<close> with no
  call to the platform client, and otherwise it runs \<^verbatim>\<open>setup\<close> with that key. The server
  name is not checked: an absent or empty name is replaced by the default
  \<open>billing-invoice-automation\<close>, and with a key that is not blank every name that is not
  empty, white space included, goes to \<^verbatim>\<open>mcp.create\<close> as it is.
\<close>

theorem provision_validation:
  "(env = None \<or> (\<exists>key. env = Some key \<and> list_all isWhiteSpace key) \<longrightarrow>
      setupFromEnv P env name_opt
        = ([], Inl (ComposioApiKeyError ''COMPOSIO_API_KEY environment variable is required.'')))
   \<and> (\<not> list_all isWhiteSpace key' \<longrightarrow>
      setupFromEnv P (Some key') name_opt
        = setup' P \<lparr>SetupConfig.composioApiKey = key',
                    SetupConfig.serverName =
                      (case name_opt of None \<Rightarrow> ''billing-invoice-automation''
                       | Some n \<Rightarrow> if n = [] then ''billing-invoice-automation'' else n)\<rparr>)
   \<and> setup' P \<lparr>SetupConfig.composioApiKey = k, SetupConfig.serverName = []\<rparr>
       = setup' P \<lparr>SetupConfig.composioApiKey = k,
                   SetupConfig.serverName = ''billing-invoice-automation''\<rparr>
   \<and> (\<not> list_all isWhiteSpace k \<and> n \<noteq> [] \<and> P k True = Inr composio \<longrightarrow>
      fst (setup' P \<lparr>SetupConfig.composioApiKey = k, SetupConfig.serverName = n\<rparr>)
        = [NewComposio k True,
           McpCreate n (map toolkit BILLING_TOOLKITS) BILLING_ALLOWED_TOOLS False])"
proof (intro conjI impI)
  assume "env = None \<or> (\<exists>key. env = Some key \<and> list_all isWhiteSpace key)"
  then have "env = None \<or> (\<exists>key. env = Some key \<and> missing (Some key))"
    using missing_Some_iff by blast
  then show "setupFromEnv P env name_opt
        = ([], Inl (ComposioApiKeyError ''COMPOSIO_API_KEY environment variable is required.''))"
    by (auto simp: setupFromEnv_def getApiKey_def)
next
  assume "\<not> list_all isWhiteSpace key'"
  then have "\<not> missing (Some key')"
    by (simp add: missing_Some_iff)
  then show "setupFromEnv P (Some key') name_opt
        = setup' P \<lparr>SetupConfig.composioApiKey = key',
                    SetupConfig.serverName =
                      (case name_opt of None \<Rightarrow> ''billing-invoice-automation''
                       | Some n \<Rightarrow> if n = [] then ''billing-invoice-automation'' else n)\<rparr>"
    by (simp add: setupFromEnv_def getApiKey_def or_default_def BILLING_MCP_CONFIG_def)
next
  show "setup' P \<lparr>SetupConfig.composioApiKey = k, SetupConfig.serverName = []\<rparr>
       = setup' P \<lparr>SetupConfig.composioApiKey = k,
                   SetupConfig.serverName = ''billing-invoice-automation''\<rparr>"
    by (simp add: setup'_def or_default_def BILLING_MCP_CONFIG_def split: sum.splits)
next
  assume "\<not> list_all isWhiteSpace k \<and> n \<noteq> [] \<and> P k True = Inr composio"
  then show "fst (setup' P \<lparr>SetupConfig.composioApiKey = k, SetupConfig.serverName = n\<rparr>)
        = [NewComposio k True,
           McpCreate n (map toolkit BILLING_TOOLKITS) BILLING_ALLOWED_TOOLS False]"
    by (simp add: setup'_def or_default_def Let_def split: sum.splits)
qed

theorem provision_validation_witness:
  "list_all isWhiteSpace [CHR 0x09, CHR '' '']
   \<and> setupFromEnv platform_ok (Some [CHR 0x09, CHR '' '']) (Some ''billing'')
     = ([], Inl (ComposioApiKeyError ''COMPOSIO_API_KEY environment variable is required.''))
   \<and> setupFromEnv platform_ok None None
     = ([], Inl (ComposioApiKeyError ''COMPOSIO_API_KEY environment variable is required.''))
   \<and> \<not> list_all isWhiteSpace ''k1''
   \<and> setupFromEnv platform_ok (Some ''k1'') None
     = setup' platform_ok
         \<lparr>SetupConfig.composioApiKey = ''k1'', SetupConfig.serverName = ''billing-invoice-automation''\<rparr>
   \<and> fst (setup' platform_ok \<lparr>SetupConfig.composioApiKey = ''k1'', SetupConfig.serverName = ''  ''\<rparr>)
     = [NewComposio ''k1'' True,
        McpCreate ''  '' (map toolkit BILLING_TOOLKITS) BILLING_ALLOWED_TOOLS False]"
  using provision_validation
      [where env = "Some [CHR 0x09, CHR '' '']" and P = platform_ok and name_opt = "Some ''billing''"
         and key' = "''k1''" and k = "''k1''" and n = "''  ''" and composio = client_ok]
    provision_validation
      [where env = None and P = platform_ok and name_opt = None and key' = "''k1''"]
  by (simp add: isWhiteSpace_def platform_ok_def)

section \<open>The result of setup\<close>

text \<open>
  Claim C3. Whenever \<^verbatim>\<open>setup\<close> returns a result, its \<^verbatim>\<open>toolkits\<close> are the five toolkit
  identifiers and its \<^verbatim>\<open>allowedTools\<close> the eleven tool names of the fixed manifest, in
  their order, whatever client it ran against; \<^verbatim>\<open>serverId\<close> and \<^verbatim>\<open>serverName\<close> are the
  \<^verbatim>\<open>id\<close> and \<^verbatim>\<open>name\<close> of the answer of \<^verbatim>\<open>mcp.create\<close>.
\<close>

theorem setup_result_lists_fixed:
  assumes "setup' P config = (calls, Inr r)"
  shows "SetupResult.toolkits r = [''gmail'', ''googlesheets'', ''googledrive'', ''outlook'', ''xero'']
    \<and> SetupResult.allowedTools r =
        [''GMAIL_FETCH_EMAILS'', ''GMAIL_GET_ATTACHMENT'', ''GMAIL_SEND_EMAIL'',
         ''GOOGLESHEETS_BATCH_UPDATE'', ''GOOGLESHEETS_CREATE_GOOGLE_SHEET1'',
         ''GOOGLEDRIVE_DOWNLOAD_FILE'', ''GOOGLEDRIVE_UPLOAD_FILE'',
         ''OUTLOOK_SEARCH_MESSAGES'', ''OUTLOOK_GET_ATTACHMENT'',
         ''XERO_LIST_INVOICES'', ''XERO_CREATE_INVOICE'']
    \<and> (\<exists>composio mcpConfig.
          P (SetupConfig.composioApiKey config) True = Inr composio
        \<and> mcp_create composio
            (or_default (Some (SetupConfig.serverName config)) ''billing-invoice-automation'')
            (SetupResult.toolkits r) (SetupResult.allowedTools r) False = Inr mcpConfig
        \<and> SetupResult.serverId r = id' mcpConfig
        \<and> SetupResult.serverName r = ComposioMCPServer.name mcpConfig)"
proof -
  from assms obtain composio mcpConfig where
    c: "P (SetupConfig.composioApiKey config) True = Inr composio"
    and m: "mcp_create composio
       (or_default (Some (SetupConfig.serverName config)) (MCPServerConfig.name BILLING_MCP_CONFIG))
       (map toolkit BILLING_TOOLKITS) BILLING_ALLOWED_TOOLS False = Inr mcpConfig"
    and r: "r = \<lparr>SetupResult.serverId = id' mcpConfig,
          SetupResult.serverName = ComposioMCPServer.name mcpConfig,
          SetupResult.toolkits = map toolkit BILLING_TOOLKITS,
          SetupResult.allowedTools = BILLING_ALLOWED_TOOLS\<rparr>"
    by (rule setup'_created)
  have t: "SetupResult.toolkits r = map toolkit BILLING_TOOLKITS"
    and a: "SetupResult.allowedTools r = BILLING_ALLOWED_TOOLS"
    using r by simp_all
  have n: "MCPServerConfig.name BILLING_MCP_CONFIG = ''billing-invoice-automation''"
    by (simp add: BILLING_MCP_CONFIG_def)
  have "\<exists>composio mcpConfig.
          P (SetupConfig.composioApiKey config) True = Inr composio
        \<and> mcp_create composio
            (or_default (Some (SetupConfig.serverName config)) ''billing-invoice-automation'')
            (SetupResult.toolkits r) (SetupResult.allowedTools r) False = Inr mcpConfig
        \<and> SetupResult.serverId r = id' mcpConfig
        \<and> SetupResult.serverName r = ComposioMCPServer.name mcpConfig"
    using c m r unfolding t a n by (intro exI [of _ composio] exI [of _ mcpConfig]) simp
  moreover have "SetupResult.toolkits r
      = [''gmail'', ''googlesheets'', ''googledrive'', ''outlook'', ''xero'']"
    unfolding t by (simp add: BILLING_TOOLKITS_def)
  moreover have "SetupResult.allowedTools r =
        [''GMAIL_FETCH_EMAILS'', ''GMAIL_GET_ATTACHMENT'', ''GMAIL_SEND_EMAIL'',
         ''GOOGLESHEETS_BATCH_UPDATE'', ''GOOGLESHEETS_CREATE_GOOGLE_SHEET1'',
         ''GOOGLEDRIVE_DOWNLOAD_FILE'', ''GOOGLEDRIVE_UPLOAD_FILE'',
         ''OUTLOOK_SEARCH_MESSAGES'', ''OUTLOOK_GET_ATTACHMENT'',
         ''XERO_LIST_INVOICES'', ''XERO_CREATE_INVOICE'']"
    unfolding a by (simp add: BILLING_ALLOWED_TOOLS_def)
  ultimately show ?thesis by blast
qed

theorem setup_result_lists_fixed_witness:
  "setup' platform_ok
     \<lparr>SetupConfig.composioApiKey = ''k1'', SetupConfig.serverName = ''billing-invoice-automation''\<rparr>
   = ([NewComposio ''k1'' True,
       McpCreate ''billing-invoice-automation''
         [''gmail'', ''googlesheets'', ''googledrive'', ''outlook'', ''xero'']
         BILLING_ALLOWED_TOOLS False],
      Inr \<lparr>SetupResult.serverId = ''srv-1'',
           SetupResult.serverName = ''billing-invoice-automation'',
           SetupResult.toolkits = [''gmail'', ''googlesheets'', ''googledrive'', ''outlook'', ''xero''],
           SetupResult.allowedTools =
             [''GMAIL_FETCH_EMAILS'', ''GMAIL_GET_ATTACHMENT'', ''GMAIL_SEND_EMAIL'',
              ''GOOGLESHEETS_BATCH_UPDATE'', ''GOOGLESHEETS_CREATE_GOOGLE_SHEET1'',
              ''GOOGLEDRIVE_DOWNLOAD_FILE'', ''GOOGLEDRIVE_UPLOAD_FILE'',
              ''OUTLOOK_SEARCH_MESSAGES'', ''OUTLOOK_GET_ATTACHMENT'',
              ''XERO_LIST_INVOICES'', ''XERO_CREATE_INVOICE'']\<rparr>)
   \<and> ComposioMCPServer.allowedTools example_server = [''SLACK_SEND_MESSAGE'']"
  using setup_result_lists_fixed [OF setup'_platform_ok] setup'_platform_ok
  by (simp add: BILLING_TOOLKITS_def BILLING_ALLOWED_TOOLS_def example_server_def)

section \<open>The API key in the rendered documents\<close>

text \<open>
  Claim C4. When the headers of the endpoint have no \<open>x-api-key\<close> entry, or an empty one,
  each of the three documents of \<^verbatim>\<open>generateIDEConfigs\<close> has \<open>YOUR_COMPOSIO_API_KEY\<close> as the
  value of \<open>x-api-key\<close> in the headers of the entry under the label; when the entry is
  there and not empty, each has its value.
\<close>

theorem generateIDEConfigs_api_key:
  "(map_of (GeneratedUrl.headers e) ''x-api-key'' = None
      \<or> map_of (GeneratedUrl.headers e) ''x-api-key'' = Some []
    \<longrightarrow> vscode_header (vscode (generateIDEConfigs e (Some l))) l ''x-api-key''
          = Some ''YOUR_COMPOSIO_API_KEY''
      \<and> vscode_header (kiro (generateIDEConfigs e (Some l))) l ''x-api-key''
          = Some ''YOUR_COMPOSIO_API_KEY''
      \<and> claudeDesktop_header (claudeDesktop (generateIDEConfigs e (Some l))) l ''x-api-key''
          = Some ''YOUR_COMPOSIO_API_KEY'')
   \<and> (map_of (GeneratedUrl.headers e) ''x-api-key'' = Some v \<and> v \<noteq> []
    \<longrightarrow> vscode_header (vscode (generateIDEConfigs e (Some l))) l ''x-api-key'' = Some v
      \<and> vscode_header (kiro (generateIDEConfigs e (Some l))) l ''x-api-key'' = Some v
      \<and> claudeDesktop_header (claudeDesktop (generateIDEConfigs e (Some l))) l ''x-api-key''
          = Some v)"
  unfolding rendered_api_key by (auto simp: or_default_def)

theorem generateIDEConfigs_api_key_witness:
  "map_of (GeneratedUrl.headers \<lparr>GeneratedUrl.url = ''u'', GeneratedUrl.headers = [(''accept'', ''*'')]\<rparr>)
       ''x-api-key'' = None
   \<and> vscode_header (vscode (generateIDEConfigs
         \<lparr>GeneratedUrl.url = ''u'', GeneratedUrl.headers = [(''accept'', ''*'')]\<rparr> (Some ''lbl'')))
         ''lbl'' ''x-api-key'' = Some ''YOUR_COMPOSIO_API_KEY''
   \<and> claudeDesktop_header (claudeDesktop (generateIDEConfigs
         \<lparr>GeneratedUrl.url = ''u'', GeneratedUrl.headers = [(''x-api-key'', [])]\<rparr> (Some ''lbl'')))
         ''lbl'' ''x-api-key'' = Some ''YOUR_COMPOSIO_API_KEY''
   \<and> map_of (GeneratedUrl.headers example_endpoint) ''x-api-key'' = Some ''k1''
   \<and> vscode_header (vscode (generateIDEConfigs example_endpoint (Some ''lbl''))) ''lbl'' ''x-api-key''
       = Some ''k1''
   \<and> vscode_header (kiro (generateIDEConfigs example_endpoint (Some ''lbl''))) ''lbl'' ''x-api-key''
       = Some ''k1''
   \<and> claudeDesktop_header (claudeDesktop (generateIDEConfigs example_endpoint (Some ''lbl'')))
         ''lbl'' ''x-api-key'' = Some ''k1''"
  using generateIDEConfigs_api_key
      [of "\<lparr>GeneratedUrl.url = ''u'', GeneratedUrl.headers = [(''accept'', ''*'')]\<rparr>" "''lbl''" "''k1''"]
    generateIDEConfigs_api_key
      [of "\<lparr>GeneratedUrl.url = ''u'', GeneratedUrl.headers = [(''x-api-key'', [])]\<rparr>" "''lbl''" "''k1''"]
    generateIDEConfigs_api_key [of example_endpoint "''lbl''" "''k1''"]
  by (simp add: example_endpoint_def)

section \<open>Validation in generateUserUrl\<close>

text \<open>
  Claim C5. \<^verbatim>\<open>generateUserUrl\<close> checks the API key, then the server id, then the user id,
  each for being empty or made of white space only. The first field that fails decides
  the message of the \<^verbatim>\<open>UrlGenerationError\<close>, which carries no cause, and no call to the
  platform client has been made.
\<close>

theorem generateUserUrl_validation_order:
  "(list_all isWhiteSpace k \<longrightarrow>
      generateUserUrl P \<lparr>GenerateUrlConfig.composioApiKey = k, GenerateUrlConfig.serverId = s, userId = u\<rparr>
        = ([], Inl (UrlGenerationError ''Composio API key is required'' None)))
   \<and> (\<not> list_all isWhiteSpace k \<and> list_all isWhiteSpace s \<longrightarrow>
      generateUserUrl P \<lparr>GenerateUrlConfig.composioApiKey = k, GenerateUrlConfig.serverId = s, userId = u\<rparr>
        = ([], Inl (UrlGenerationError ''Server ID is required'' None)))
   \<and> (\<not> list_all isWhiteSpace k \<and> \<not> list_all isWhiteSpace s \<and> list_all isWhiteSpace u \<longrightarrow>
      generateUserUrl P \<lparr>GenerateUrlConfig.composioApiKey = k, GenerateUrlConfig.serverId = s, userId = u\<rparr>
        = ([], Inl (UrlGenerationError ''User ID is required'' None)))"
  by (simp add: generateUserUrl_def Let_def missing_Some_iff)

theorem generateUserUrl_validation_order_witness:
  "list_all isWhiteSpace '' ''
   \<and> generateUserUrl platform_ok
         \<lparr>GenerateUrlConfig.composioApiKey = '' '', GenerateUrlConfig.serverId = [], userId = []\<rparr>
       = ([], Inl (UrlGenerationError ''Composio API key is required'' None))
   \<and> \<not> list_all isWhiteSpace ''k1'' \<and> list_all isWhiteSpace [CHR 0x09]
   \<and> generateUserUrl platform_ok
         \<lparr>GenerateUrlConfig.composioApiKey = ''k1'', GenerateUrlConfig.serverId = [CHR 0x09], userId = []\<rparr>
       = ([], Inl (UrlGenerationError ''Server ID is required'' None))
   \<and> \<not> list_all isWhiteSpace ''srv-1'' \<and> list_all isWhiteSpace []
   \<and> generateUserUrl platform_ok
         \<lparr>GenerateUrlConfig.composioApiKey = ''k1'', GenerateUrlConfig.serverId = ''srv-1'', userId = []\<rparr>
       = ([], Inl (UrlGenerationError ''User ID is required'' None))"
  using generateUserUrl_validation_order [of "'' ''" platform_ok "[]" "[]"]
    generateUserUrl_validation_order [of "''k1''" platform_ok "[CHR 0x09]" "[]"]
    generateUserUrl_validation_order [of "''k1''" platform_ok "''srv-1''" "[]"]
  by (simp add: isWhiteSpace_def)

section \<open>The label of the rendered documents\<close>

text \<open>
  Claim C6. \<^verbatim>\<open>generateIDEConfigs\<close> is a function of the endpoint and the label alone (it
  takes no client and makes no call): equal arguments give equal documents. For a fixed
  endpoint there are three entries, independent of the label, such that for every label
  each document is the object with the one key \<^verbatim>\<open>mcpServers\<close> whose value has the label
  as its only key, mapped to that entry. A label that is left out is \<open>billing-agent\<close>.
\<close>

theorem generateIDEConfigs_label_only:
  "(e1 = e2 \<and> l1 = l2 \<longrightarrow> generateIDEConfigs e1 l1 = generateIDEConfigs e2 l2)
   \<and> (\<exists>v k c. \<forall>l. generateIDEConfigs e (Some l) =
         \<lparr>vscode = \<lparr>VSCodeMCPConfig.mcpServers = [(l, v)]\<rparr>,
          kiro = \<lparr>VSCodeMCPConfig.mcpServers = [(l, k)]\<rparr>,
          claudeDesktop = \<lparr>ClaudeDesktopMCPConfig.mcpServers = [(l, c)]\<rparr>\<rparr>)
   \<and> generateIDEConfigs e None = generateIDEConfigs e (Some ''billing-agent'')"
proof (intro conjI impI)
  assume "e1 = e2 \<and> l1 = l2"
  then show "generateIDEConfigs e1 l1 = generateIDEConfigs e2 l2" by simp
next
  show "\<exists>v k c. \<forall>l. generateIDEConfigs e (Some l) =
         \<lparr>vscode = \<lparr>VSCodeMCPConfig.mcpServers = [(l, v)]\<rparr>,
          kiro = \<lparr>VSCodeMCPConfig.mcpServers = [(l, k)]\<rparr>,
          claudeDesktop = \<lparr>ClaudeDesktopMCPConfig.mcpServers = [(l, c)]\<rparr>\<rparr>"
    by (simp add: generateIDEConfigs_eq)
next
  show "generateIDEConfigs e None = generateIDEConfigs e (Some ''billing-agent'')"
    by (simp add: generateIDEConfigs_eq)
qed

theorem generateIDEConfigs_label_only_witness:
  "generateIDEConfigs example_endpoint None = generateIDEConfigs example_endpoint (Some ''billing-agent'')
   \<and> vscode (generateIDEConfigs example_endpoint (Some ''billing-agent'')) =
       \<lparr>VSCodeMCPConfig.mcpServers =
          [(''billing-agent'',
            \<lparr>VSCodeServer.type' = ''http'',
             VSCodeServer.url = ''https://host/v3/mcp/srv-1?user_id=u@example.com'',
             VSCodeServer.headers = [(''x-api-key'', ''k1'')]\<rparr>)]\<rparr>
   \<and> vscode (generateIDEConfigs example_endpoint (Some ''invoices'')) =
       \<lparr>VSCodeMCPConfig.mcpServers =
          [(''invoices'',
            \<lparr>VSCodeServer.type' = ''http'',
             VSCodeServer.url = ''https://host/v3/mcp/srv-1?user_id=u@example.com'',
             VSCodeServer.headers = [(''x-api-key'', ''k1'')]\<rparr>)]\<rparr>"
  using generateIDEConfigs_label_only
      [of example_endpoint example_endpoint "Some ''billing-agent''" "Some ''billing-agent''"
          example_endpoint]
  by (simp add: rendered_example)

section \<open>Name conflicts\<close>

text \<open>
  Claim C7. When \<^verbatim>\<open>mcp.create\<close> throws an error whose message contains
  \<open>already exists\<close>, \<^verbatim>\<open>setup\<close> throws the \<^verbatim>\<open>MCPServerError\<close> whose message names the
  server name that was requested and advises a different name or the deletion of the
  existing server, and whose cause is the error thrown. Nothing is assumed of the rest of
  the message, so this holds as well when it contains \<open>Invalid\<close>, \<open>unauthorized\<close> or
  \<open>401\<close>: the conflict is recognised first.
\<close>

theorem setup_name_conflict:
  assumes "P (SetupConfig.composioApiKey config) True = Inr composio"
    and "requested = (if SetupConfig.serverName config = [] then ''billing-invoice-automation''
                      else SetupConfig.serverName config)"
    and "mcp_create composio requested (map toolkit BILLING_TOOLKITS) BILLING_ALLOWED_TOOLS False
           = Inl error"
    and "errorMessage error = p @ ''already exists'' @ q"
  shows "snd (setup' P config) =
           Inl (MCPServerError
                  (''MCP server with name '' @ [CHR 0x27] @ requested @ [CHR 0x27]
                     @ '' already exists with different configuration. ''
                     @ ''Please use a different server name or delete the existing server.'')
                  (Some error))"
proof -
  have "includes_str (errorMessage error) ''already exists''"
    unfolding includes_str_iff using assms(4) by blast
  then have "setup_catch requested error =
           MCPServerError
                  (''MCP server with name '' @ [CHR 0x27] @ requested @ [CHR 0x27]
                     @ '' already exists with different configuration. ''
                     @ ''Please use a different server name or delete the existing server.'')
                  (Some error)"
    by (simp add: setup_catch_def Let_def)
  moreover have "snd (setup' P config) = Inl (setup_catch requested error)"
    using setup'_create_throws [of P config composio error] assms(1-3) by simp
  ultimately show ?thesis by simp
qed

theorem setup_name_conflict_witness:
  "errorMessage (JsError ''401 unauthorized: Invalid request, server already exists'')
     = ''401 unauthorized: Invalid request, server '' @ ''already exists'' @ []
   \<and> includes_str ''401 unauthorized: Invalid request, server already exists'' ''401''
   \<and> snd (setup' (platform_failing (JsError ''401 unauthorized: Invalid request, server already exists''))
            \<lparr>SetupConfig.composioApiKey = ''k1'', SetupConfig.serverName = ''billing''\<rparr>)
     = Inl (MCPServerError
              (''MCP server with name '' @ [CHR 0x27] @ ''billing'' @ [CHR 0x27]
                 @ '' already exists with different configuration. ''
                 @ ''Please use a different server name or delete the existing server.'')
              (Some (JsError ''401 unauthorized: Invalid request, server already exists'')))"
  using setup_name_conflict
    [of "platform_failing (JsError ''401 unauthorized: Invalid request, server already exists'')"
        "\<lparr>SetupConfig.composioApiKey = ''k1'', SetupConfig.serverName = ''billing''\<rparr>"
        "client_failing (JsError ''401 unauthorized: Invalid request, server already exists'')"
        "''billing''"
        "JsError ''401 unauthorized: Invalid request, server already exists''"
        "''401 unauthorized: Invalid request, server ''" "[]"]
  by (simp add: platform_failing_def client_failing_def)

section \<open>The default manifest\<close>

text \<open>
  Claim C8. The default manifest has five toolkits and eleven allowed tools, and every
  allowed tool is qualified under one of the five toolkits: three under \<open>gmail\<close> and two
  under each of \<open>googlesheets\<close>, \<open>googledrive\<close>, \<open>outlook\<close> and \<open>xero\<close>.
\<close>

theorem default_manifest_invariant:
  "map toolkit BILLING_TOOLKITS = [''gmail'', ''googlesheets'', ''googledrive'', ''outlook'', ''xero'']
   \<and> length BILLING_ALLOWED_TOOLS = 11
   \<and> (\<forall>tool. tool \<in> set BILLING_ALLOWED_TOOLS \<longrightarrow>
         (\<exists>tk. tk \<in> set (map toolkit BILLING_TOOLKITS) \<and> tool_of_toolkit tk tool))
   \<and> filter (tool_of_toolkit ''gmail'') BILLING_ALLOWED_TOOLS
       = [''GMAIL_FETCH_EMAILS'', ''GMAIL_GET_ATTACHMENT'', ''GMAIL_SEND_EMAIL'']
   \<and> filter (tool_of_toolkit ''googlesheets'') BILLING_ALLOWED_TOOLS
       = [''GOOGLESHEETS_BATCH_UPDATE'', ''GOOGLESHEETS_CREATE_GOOGLE_SHEET1'']
   \<and> filter (tool_of_toolkit ''googledrive'') BILLING_ALLOWED_TOOLS
       = [''GOOGLEDRIVE_DOWNLOAD_FILE'', ''GOOGLEDRIVE_UPLOAD_FILE'']
   \<and> filter (tool_of_toolkit ''outlook'') BILLING_ALLOWED_TOOLS
       = [''OUTLOOK_SEARCH_MESSAGES'', ''OUTLOOK_GET_ATTACHMENT'']
   \<and> filter (tool_of_toolkit ''xero'') BILLING_ALLOWED_TOOLS
       = [''XERO_LIST_INVOICES'', ''XERO_CREATE_INVOICE'']"
proof (intro conjI)
  show "\<forall>tool. tool \<in> set BILLING_ALLOWED_TOOLS \<longrightarrow>
         (\<exists>tk. tk \<in> set (map toolkit BILLING_TOOLKITS) \<and> tool_of_toolkit tk tool)"
    using tools_qualified unfolding list_all_iff list_ex_iff by blast
qed (simp_all add: BILLING_TOOLKITS_def BILLING_ALLOWED_TOOLS_def tool_of_toolkit_def toUpperCase_def)

theorem default_manifest_invariant_witness:
  "''OUTLOOK_GET_ATTACHMENT'' \<in> set BILLING_ALLOWED_TOOLS
   \<and> ''outlook'' \<in> set (map toolkit BILLING_TOOLKITS)
   \<and> tool_of_toolkit ''outlook'' ''OUTLOOK_GET_ATTACHMENT''
   \<and> \<not> tool_of_toolkit ''gmail'' ''OUTLOOK_GET_ATTACHMENT''
   \<and> length (filter (tool_of_toolkit ''gmail'') BILLING_ALLOWED_TOOLS) = 3"
  using default_manifest_invariant
  by (simp add: BILLING_TOOLKITS_def BILLING_ALLOWED_TOOLS_def tool_of_toolkit_def toUpperCase_def)

section \<open>Configuration paths\<close>

text \<open>
  Claim C9. \<^verbatim>\<open>getIDEConfigPath\<close> returns a path for every argument and has no branch that
  throws: the three known targets have their fixed paths, and every other string gets
  \<open>mcp.json\<close>.
\<close>

theorem getIDEConfigPath_total:
  "getIDEConfigPath ''vscode'' = ''.vscode/mcp.json''
   \<and> getIDEConfigPath ''kiro'' = ''.kiro/settings/mcp.json''
   \<and> getIDEConfigPath ''claudeDesktop''
       = ''~/Library/Application Support/Claude/claude_desktop_config.json''
   \<and> (ide \<noteq> ''vscode'' \<and> ide \<noteq> ''kiro'' \<and> ide \<noteq> ''claudeDesktop''
        \<longrightarrow> getIDEConfigPath ide = ''mcp.json'')"
  by (simp add: getIDEConfigPath_def)

theorem getIDEConfigPath_total_witness:
  "''cursor'' \<noteq> ''vscode'' \<and> ''cursor'' \<noteq> ''kiro'' \<and> ''cursor'' \<noteq> ''claudeDesktop''
   \<and> getIDEConfigPath ''cursor'' = ''mcp.json''
   \<and> getIDEConfigPath [] = ''mcp.json''
   \<and> getIDEConfigPath ''VSCode'' = ''mcp.json''"
  using getIDEConfigPath_total [of "''cursor''"] getIDEConfigPath_total [of "[]"]
    getIDEConfigPath_total [of "''VSCode''"]
  by simp

section \<open>The three documents are one value\<close>

text \<open>
  Claim C10. For every endpoint and label the Kiro document equals the VSCode document,
  and the Claude Desktop document is that same value at its own type: the same label,
  \<open>type\<close> \<open>http\<close>, url and headers, with \<^verbatim>\<open>command\<close> and \<^verbatim>\<open>args\<close> absent. So
  \<^verbatim>\<open>generateVSCodeConfig\<close>, \<^verbatim>\<open>generateKiroConfig\<close> and \<^verbatim>\<open>generateClaudeDesktopConfig\<close>
  return the same value.
\<close>

theorem ide_documents_identical:
  "kiro (generateIDEConfigs e l) = vscode (generateIDEConfigs e l)
   \<and> claudeDesktop (generateIDEConfigs e l)
       = asClaudeDesktopMCPConfig (vscode (generateIDEConfigs e l))
   \<and> list_all (\<lambda>(label, s). command s = None \<and> args s = None
                  \<and> ClaudeDesktopServer.type' s = Some ''http'')
        (ClaudeDesktopMCPConfig.mcpServers (claudeDesktop (generateIDEConfigs e l)))
   \<and> generateKiroConfig e l = generateVSCodeConfig e l
   \<and> generateClaudeDesktopConfig e l = asClaudeDesktopMCPConfig (generateVSCodeConfig e l)"
  by (simp add: generateIDEConfigs_eq generateKiroConfig_def generateVSCodeConfig_def
      generateClaudeDesktopConfig_def asClaudeDesktopMCPConfig_def asClaudeDesktopServer_def)

theorem ide_documents_identical_witness:
  "generateKiroConfig example_endpoint None = generateVSCodeConfig example_endpoint None
   \<and> generateClaudeDesktopConfig example_endpoint (Some ''billing-agent'') =
       \<lparr>ClaudeDesktopMCPConfig.mcpServers =
          [(''billing-agent'',
            \<lparr>command = None, args = None,
             ClaudeDesktopServer.url = Some ''https://host/v3/mcp/srv-1?user_id=u@example.com'',
             ClaudeDesktopServer.type' = Some ''http'',
             ClaudeDesktopServer.headers = Some [(''x-api-key'', ''k1'')]\<rparr>)]\<rparr>
   \<and> asClaudeDesktopMCPConfig (generateVSCodeConfig example_endpoint (Some ''billing-agent'')) =
       \<lparr>ClaudeDesktopMCPConfig.mcpServers =
          [(''billing-agent'',
            \<lparr>command = None, args = None,
             ClaudeDesktopServer.url = Some ''https://host/v3/mcp/srv-1?user_id=u@example.com'',
             ClaudeDesktopServer.type' = Some ''http'',
             ClaudeDesktopServer.headers = Some [(''x-api-key'', ''k1'')]\<rparr>)]\<rparr>"
  using ide_documents_identical [of example_endpoint None]
    ide_documents_identical [of example_endpoint "Some ''billing-agent''"]
  by (simp add: generateClaudeDesktopConfig_def generateVSCodeConfig_def rendered_example
      asClaudeDesktopMCPConfig_def asClaudeDesktopServer_def)

end
